theory Spec2Isabelle
  imports Complex_Main "HOL-Library.Log_Nat"
begin

section \<open>Numbers and strings as the client script uses them\<close>

text \<open>
  The client script (static/app.js) computes with JavaScript numbers. The values it reaches
  here are integers, the not-a-number value, and (after a pass through JSON, which writes
  NaN as null) the null value. Integers are exact in a double up to \<open>2 ^ 53\<close>;
  the model keeps them exact throughout.
\<close>

datatype jsnum = Num int | NaN | Null

text \<open>ToNumber on the three values: null counts as 0.\<close>

fun to_number :: "jsnum \<Rightarrow> int option" where
  "to_number (Num i) = Some i"
| "to_number NaN = None"
| "to_number Null = Some 0"

definition js_binop :: "(int \<Rightarrow> int \<Rightarrow> int) \<Rightarrow> jsnum \<Rightarrow> jsnum \<Rightarrow> jsnum" where
  "js_binop f a b =
     (case (to_number a, to_number b) of
        (Some x, Some y) \<Rightarrow> Num (f x y)
      | _ \<Rightarrow> NaN)"

definition js_add :: "jsnum \<Rightarrow> jsnum \<Rightarrow> jsnum" where
  "js_add = js_binop (+)"

definition js_sub :: "jsnum \<Rightarrow> jsnum \<Rightarrow> jsnum" where
  "js_sub = js_binop (-)"

definition js_mul :: "jsnum \<Rightarrow> jsnum \<Rightarrow> jsnum" where
  "js_mul = js_binop (*)"

text \<open>\<open>a <= b\<close>: false as soon as one side is NaN.\<close>

definition js_le :: "jsnum \<Rightarrow> jsnum \<Rightarrow> bool" where
  "js_le a b =
     (case (to_number a, to_number b) of
        (Some x, Some y) \<Rightarrow> x \<le> y
      | _ \<Rightarrow> False)"

text \<open>\<open>Math.max(a, b)\<close>: NaN as soon as one argument is NaN.\<close>

definition Math_max :: "jsnum \<Rightarrow> jsnum \<Rightarrow> jsnum" where
  "Math_max = js_binop max"

text \<open>
  \<open>x || 0\<close> on a number: 0, NaN and null are falsy, every other number is kept.
\<close>

fun or_zero :: "jsnum \<Rightarrow> int" where
  "or_zero (Num i) = i"
| "or_zero NaN = 0"
| "or_zero Null = 0"

text \<open>
  \<open>str.split(sep)\<close> for a one-character separator: the pieces between the separators,
  one piece (the empty string) for the empty string.
\<close>

fun js_split :: "char \<Rightarrow> string \<Rightarrow> string list" where
  "js_split sep [] = [[]]"
| "js_split sep (c # cs) =
     (if c = sep then [] # js_split sep cs
      else (case js_split sep cs of
              [] \<Rightarrow> [[c]]
            | p # ps \<Rightarrow> (c # p) # ps))"

definition is_digit :: "char \<Rightarrow> bool" where
  "is_digit c = (48 \<le> (of_char c :: nat) \<and> (of_char c :: nat) \<le> 57)"

definition digit_val :: "char \<Rightarrow> nat" where
  "digit_val c = of_char c - 48"

definition decimal :: "string \<Rightarrow> nat" where
  "decimal s = foldl (\<lambda>a c. 10 * a + digit_val c) 0 s"

text \<open>
  \<open>Number(str)\<close> on the strings a time field delivers: a run of decimal digits is its
  value and the empty string is 0. Every other string is NaN in the model; JavaScript
  also reads signs, fractions, exponents, radix prefixes and surrounding white space,
  which no piece of an \<open>HH:MM\<close> value contains.
\<close>

definition Number :: "string \<Rightarrow> jsnum" where
  "Number s = (if list_all is_digit s then Num (int (decimal s)) else NaN)"

text \<open>
  An array element read by destructuring: past the end it is undefined, which the
  arithmetic that follows turns into NaN.
\<close>

definition element :: "jsnum list \<Rightarrow> nat \<Rightarrow> jsnum" where
  "element xs i = (if i < length xs then xs ! i else NaN)"

text \<open>
  \<open>parseInt(str)\<close>: leading white space is skipped, a sign is read, then the longest
  run of digits (hexadecimal after a \<open>0x\<close> prefix); NaN when there is no digit.
\<close>

definition is_space :: "char \<Rightarrow> bool" where
  "is_space c = ((of_char c :: nat) \<in> {9, 10, 11, 12, 13, 32, 160})"

definition hex_val :: "char \<Rightarrow> nat option" where
  "hex_val c =
     (let n = (of_char c :: nat) in
      if 48 \<le> n \<and> n \<le> 57 then Some (n - 48)
      else if 65 \<le> n \<and> n \<le> 70 then Some (n - 55)
      else if 97 \<le> n \<and> n \<le> 102 then Some (n - 87)
      else None)"

definition hexadecimal :: "string \<Rightarrow> nat" where
  "hexadecimal s = foldl (\<lambda>a c. 16 * a + (case hex_val c of None \<Rightarrow> 0 | Some d \<Rightarrow> d)) 0 s"

definition parseInt :: "string \<Rightarrow> jsnum" where
  "parseInt str =
     (let t = dropWhile is_space str;
          neg = (t \<noteq> [] \<and> hd t = CHR ''-'');
          u = (if t \<noteq> [] \<and> (hd t = CHR ''-'' \<or> hd t = CHR ''+'') then tl t else t);
          hex = (take 2 u = ''0x'' \<or> take 2 u = ''0X'');
          ds = (if hex then takeWhile (\<lambda>c. hex_val c \<noteq> None) (drop 2 u)
                else takeWhile is_digit u);
          v = int (if hex then hexadecimal ds else decimal ds)
      in if ds = [] then NaN else Num (if neg then - v else v))"

section \<open>Hours with fractions\<close>

text \<open>
  The \<open>netHours\<close> of older data and the total pushed to the server are doubles that need
  not be integers. A finite double is represented by its value, a rational number.
  \<open>a + b\<close> on two finite doubles is the exact sum rounded to the nearest double, a tie
  going to the even significand (53 bits, the exponent of the last bit from -1074 to
  971), and an infinity when the rounded value reaches \<open>2 ^ 1024\<close>. Negative zero is
  not told from zero.
\<close>

datatype double = Double rat | Infinity bool | Not_a_number

definition pow2 :: "int \<Rightarrow> rat" where
  "pow2 e = (if 0 \<le> e then 2 ^ nat e else 1 / 2 ^ nat (- e))"

text \<open>For \<open>x > 0\<close>, the \<open>e\<close> with \<open>2 ^ e \<le> x < 2 ^ (e + 1)\<close>.\<close>

definition floor_log2 :: "rat \<Rightarrow> int" where
  "floor_log2 x = (if 1 \<le> x then bitlen \<lfloor>x\<rfloor> - 1 else - bitlen (\<lceil>1 / x\<rceil> - 1))"

definition round_double :: "rat \<Rightarrow> double" where
  "round_double q =
     (if q = 0 then Double 0
      else
        let x = \<bar>q\<bar>;
            e = max (floor_log2 x - 52) (- 1074);
            n = x / pow2 e;
            m = \<lfloor>n\<rfloor>;
            r = n - of_int m;
            m' = (if r < 1 / 2 then m
                  else if 1 / 2 < r then m + 1
                  else if even m then m else m + 1);
            v = of_int m' * pow2 e
        in if pow2 1024 \<le> v then Infinity (0 < q)
           else Double (if 0 < q then v else - v))"

fun double_add :: "double \<Rightarrow> double \<Rightarrow> double" where
  "double_add (Double a) (Double b) = round_double (a + b)"
| "double_add Not_a_number y = Not_a_number"
| "double_add x Not_a_number = Not_a_number"
| "double_add (Infinity s) (Infinity t) = (if s = t then Infinity s else Not_a_number)"
| "double_add (Infinity s) (Double b) = Infinity s"
| "double_add (Double a) (Infinity t) = Infinity t"

section \<open>Net minutes\<close>

text \<open>
  \<open>calculateNetMinutes(startStr, endStr, breakMinutes)\<close>. The callers pass
  \<open>parseInt(...) || 0\<close> as the break, a number that is never NaN.
\<close>

definition calculateNetMinutes :: "string \<Rightarrow> string \<Rightarrow> int \<Rightarrow> jsnum" where
  "calculateNetMinutes startStr endStr breakMinutes =
     (if startStr = [] \<or> endStr = [] then Num 0
      else
        let startParts = map Number (js_split CHR '':'' startStr);
            endParts = map Number (js_split CHR '':'' endStr);
            startHour = element startParts 0;
            startMin = element startParts 1;
            endHour = element endParts 0;
            endMin = element endParts 1;
            startTotalMin = js_add (js_mul startHour (Num 60)) startMin;
            endTotalMin = js_add (js_mul endHour (Num 60)) endMin
        in if js_le endTotalMin startTotalMin then Num 0
           else
             let durationMin = js_sub endTotalMin startTotalMin;
                 netMin = Math_max (Num 0) (js_sub durationMin (Num breakMinutes))
             in netMin)"

section \<open>Sessions, the form fields and the stores\<close>

text \<open>
  A session object as \<open>saveSession\<close> builds it. \<open>netHours\<close> is a field of older
  data that only \<open>saveData\<close> reads: \<open>None\<close> when the object has no such field (or
  holds null there), and a number otherwise, as in the server's sample data
  (\<open>"netHours": 7.5\<close>).
\<close>

record session =
  session_id :: string
  date :: string
  startTime :: string
  endTime :: string
  breakMinutes :: int
  note_text :: string
  category :: string
  netMinutes :: jsnum
  netHours :: "double option"

text \<open>The values of the inputs of the session form and of the edit form.\<close>

record session_form =
  f_date :: string
  f_startTime :: string
  f_endTime :: string
  f_breakMinutes :: string
  f_note :: string
  f_category :: string

text \<open>
  A string kept in localStorage (or read from a file) is represented by what the code
  can observe of it: it is empty, or \<open>JSON.parse\<close> throws on it, or \<open>JSON.parse\<close>
  returns a value.
\<close>

datatype 'a stored = Empty_string | Not_json | Json 'a

text \<open>
  What \<open>JSON.parse(JSON.stringify(v))\<close> returns for a session list: JSON has no NaN and
  no infinity and writes each as null; strings, integers and finite doubles come back as
  they were. (An infinite \<open>netMinutes\<close>, which only the import of a literal beyond the
  doubles can bring in, is outside \<open>jsnum\<close>.)
\<close>

fun json_num :: "jsnum \<Rightarrow> jsnum" where
  "json_num NaN = Null"
| "json_num v = v"

fun json_netHours :: "double option \<Rightarrow> double option" where
  "json_netHours (Some (Double q)) = Some (Double q)"
| "json_netHours v = None"

definition json_session :: "session \<Rightarrow> session" where
  "json_session s =
     s\<lparr>netMinutes := json_num (netMinutes s), netHours := json_netHours (netHours s)\<rparr>"

definition JSON_sessions :: "session list \<Rightarrow> session list" where
  "JSON_sessions ss = map json_session ss"

text \<open>
  The body of the POST to \<open>/api/data\<close>, as the server parses it: a total that is not
  finite arrives as null (\<open>None\<close>).
\<close>

record push_body =
  body_sessions :: "session list"
  body_totalHours :: "rat option"

fun json_total :: "double \<Rightarrow> rat option" where
  "json_total (Double q) = Some q"
| "json_total v = None"

text \<open>
  File metadata and folders. \<open>file_data\<close> is the inline base64 payload of a legacy
  record. The \<open>type\<close> of a file is a string, or one of the two values that the lookup
  in \<open>getMimeType\<close> can inherit from \<open>Object.prototype\<close> (the function \<open>Object\<close> and
  \<open>Object.prototype\<close> itself), or what JSON makes of those: a function is left out of
  the text, so the field is undefined when the text is read back, and \<open>Object.prototype\<close>
  is written as the empty object.
\<close>

datatype js_type =
    Type_string string
  | Type_Object_function
  | Type_Object_prototype
  | Type_empty_object
  | Type_undefined

record file_meta =
  file_id :: string
  file_name :: string
  file_size :: string
  uploadedAt :: string
  file_type :: js_type
  file_parentId :: "string option"
  file_data :: "string option"

fun json_type :: "js_type \<Rightarrow> js_type" where
  "json_type Type_Object_function = Type_undefined"
| "json_type Type_Object_prototype = Type_empty_object"
| "json_type v = v"

definition json_file :: "file_meta \<Rightarrow> file_meta" where
  "json_file f = f\<lparr>file_type := json_type (file_type f)\<rparr>"

definition JSON_files :: "file_meta list \<Rightarrow> file_meta list" where
  "JSON_files fs = map json_file fs"

record folder =
  folder_id :: string
  folder_name :: string
  folder_parentId :: "string option"
  createdAt :: string

datatype blob = Blob string string

text \<open>
  The global variables of the script, the three localStorage keys it uses, the object
  store \<open>files\<close> of the IndexedDB database (\<open>db\<close> tells whether the database was opened),
  what the server holds for the user, the bodies of the POST requests made so far, and
  the messages shown with \<open>alert\<close>.
\<close>

record state =
  sessions :: "session list"
  selectedDate :: "string option"
  editingSessionId :: "string option"
  uploadedFiles :: "file_meta list"
  folders :: "folder list"
  currentFolder :: "string option"
  db :: bool
  files_store :: "string \<rightharpoonup> blob"
  hoursTrackerData :: "session list stored option"
  bestandenBIMFiles :: "file_meta list stored option"
  bestandenBIMFolders :: "folder list stored option"
  server :: "push_body option"
  posted :: "push_body list"
  alerts :: "string list"

definition TARGET_HOURS :: int where
  "TARGET_HOURS = 640"

definition alert :: "string \<Rightarrow> state \<Rightarrow> state" where
  "alert msg st = st\<lparr>alerts := alerts st @ [msg]\<rparr>"

section \<open>Loading and saving the sessions\<close>

text \<open>
  \<open>loadData\<close> and \<open>saveData\<close> are asynchronous functions that wait for one request. The
  model runs each of them from start to end, with the outcome of the request as an
  argument. The functions that only redraw the page (\<open>updateProgress\<close>,
  \<open>renderCalendar\<close>, \<open>renderFilesList\<close>, \<open>renderBreadcrumb\<close>) read the state and are left
  out, and \<open>localStorage.setItem\<close> is taken to succeed.
\<close>

text \<open>
  What the GET of \<open>/api/data\<close> can give: the fetch is rejected, or a response comes back
  with a status and a body. \<open>response.ok\<close> holds for the statuses 200 to 299. The body
  is not JSON, or it is JSON, of which the code reads \<open>result.data.sessions\<close>: reading it
  throws when \<open>result\<close> is null, it is missing (or falsy), or it is a session list.
\<close>

definition response_ok :: "nat \<Rightarrow> bool" where
  "response_ok status = (200 \<le> status \<and> status \<le> 299)"

datatype reply = Reply_null | Reply_no_sessions | Reply_sessions "session list"

datatype body = Body_not_json | Body_json reply

datatype get_outcome = Get_rejected | Get_response nat body

text \<open>
  \<open>loadData\<close>. The \<open>try\<close> block either updates the state or throws (\<open>None\<close>); the
  \<open>catch\<close> block reads the cache. A missing or empty cache entry leaves \<open>sessions\<close> as
  it is.
\<close>

definition loadData_try :: "get_outcome \<Rightarrow> state \<Rightarrow> state option" where
  "loadData_try r st =
     (case r of
        Get_rejected \<Rightarrow> None
      | Get_response status b \<Rightarrow>
          if \<not> response_ok status then None
          else
            (case b of
               Body_not_json \<Rightarrow> None
             | Body_json Reply_null \<Rightarrow> None
             | Body_json Reply_no_sessions \<Rightarrow> Some st
             | Body_json (Reply_sessions ss) \<Rightarrow>
                 Some (st\<lparr>sessions := ss, hoursTrackerData := Some (Json (JSON_sessions ss))\<rparr>)))"

definition loadData_catch :: "state \<Rightarrow> state" where
  "loadData_catch st =
     (case hoursTrackerData st of
        None \<Rightarrow> st
      | Some Empty_string \<Rightarrow> st
      | Some Not_json \<Rightarrow> st\<lparr>sessions := []\<rparr>
      | Some (Json ss) \<Rightarrow> st\<lparr>sessions := ss\<rparr>)"

definition loadData :: "get_outcome \<Rightarrow> state \<Rightarrow> state" where
  "loadData r st =
     (case loadData_try r st of
        Some st' \<Rightarrow> st'
      | None \<Rightarrow> loadData_catch st)"

text \<open>
  What the POST of \<open>/api/data\<close> can give: the fetch is rejected, or a response comes back
  with a status. The server stores the body before it answers with a status that is ok.
\<close>

datatype post_outcome = Post_rejected | Post_response nat

text \<open>
  \<open>sessions.reduce((sum, s) => sum + (s.netHours || 0), 0)\<close>: 0 stands in for a
  \<open>netHours\<close> that is absent, null, 0 or NaN, and the additions are those of doubles,
  from left to right.
\<close>

definition netHours_or_zero :: "session \<Rightarrow> double" where
  "netHours_or_zero s =
     (case netHours s of
        None \<Rightarrow> Double 0
      | Some h \<Rightarrow> if h = Double 0 \<or> h = Not_a_number then Double 0 else h)"

definition totalHours :: "session list \<Rightarrow> double" where
  "totalHours ss = foldl (\<lambda>sum s. double_add sum (netHours_or_zero s)) (Double 0) ss"

definition push_body_of :: "state \<Rightarrow> push_body" where
  "push_body_of st =
     \<lparr>body_sessions = JSON_sessions (sessions st),
      body_totalHours = json_total (totalHours (sessions st))\<rparr>"

text \<open>
  \<open>saveData\<close>: the cache is written, then the body is handed to \<open>fetch\<close>, whatever
  becomes of the request.
\<close>

definition saveData :: "post_outcome \<Rightarrow> state \<Rightarrow> state" where
  "saveData r st =
     (let st1 = st\<lparr>hoursTrackerData := Some (Json (JSON_sessions (sessions st)))\<rparr>;
          st2 = st1\<lparr>posted := posted st1 @ [push_body_of st1]\<rparr>
      in case r of
           Post_rejected \<Rightarrow> st2
         | Post_response status \<Rightarrow>
             (if response_ok status then st2\<lparr>server := Some (push_body_of st2)\<rparr> else st2))"

section \<open>Adding and editing a session\<close>

definition closeDayPanel :: "state \<Rightarrow> state" where
  "closeDayPanel st = st\<lparr>selectedDate := None\<rparr>"

definition openDayPanel :: "string \<Rightarrow> state \<Rightarrow> state" where
  "openDayPanel dateStr st = st\<lparr>selectedDate := Some dateStr\<rparr>"

definition closeEditModal :: "state \<Rightarrow> state" where
  "closeEditModal st = st\<lparr>editingSessionId := None\<rparr>"

text \<open>
  \<open>saveSession\<close>. \<open>new_id\<close> is the string that \<open>Date.now()\<close> and \<open>Math.random()\<close>
  give for the id.
\<close>

definition saveSession :: "string \<Rightarrow> post_outcome \<Rightarrow> session_form \<Rightarrow> state \<Rightarrow> state" where
  "saveSession new_id r form st =
     (let breakMin = or_zero (parseInt (f_breakMinutes form)) in
      if f_date form = [] \<or> f_startTime form = [] \<or> f_endTime form = []
      then alert ''Please fill in all required fields'' st
      else
        let net = calculateNetMinutes (f_startTime form) (f_endTime form) breakMin in
        if js_le net (Num 0)
        then alert ''Invalid time range or break duration is too long'' st
        else
          let s = \<lparr>session_id = new_id,
                   date = f_date form,
                   startTime = f_startTime form,
                   endTime = f_endTime form,
                   breakMinutes = breakMin,
                   note_text = f_note form,
                   category = f_category form,
                   netMinutes = net,
                   netHours = None\<rparr>
          in closeDayPanel (saveData r (st\<lparr>sessions := sessions st @ [s]\<rparr>)))"

text \<open>
  \<open>sessions.find(s => s.id === sessionId)\<close> returns the object itself, so the
  assignments of \<open>updateSession\<close> change the first session with that id inside the list.
\<close>

fun update_first :: "('a \<Rightarrow> bool) \<Rightarrow> ('a \<Rightarrow> 'a) \<Rightarrow> 'a list \<Rightarrow> 'a list" where
  "update_first P f [] = []"
| "update_first P f (x # xs) = (if P x then f x # xs else x # update_first P f xs)"

definition has_id :: "string option \<Rightarrow> session \<Rightarrow> bool" where
  "has_id i s = (i = Some (session_id s))"

definition assign_form :: "session_form \<Rightarrow> session \<Rightarrow> session" where
  "assign_form form s =
     (let breakMin = or_zero (parseInt (f_breakMinutes form)) in
      s\<lparr>date := f_date form,
        startTime := f_startTime form,
        endTime := f_endTime form,
        breakMinutes := breakMin,
        note_text := f_note form,
        category := f_category form,
        netMinutes := calculateNetMinutes (f_startTime form) (f_endTime form) breakMin\<rparr>)"

definition updateSession :: "post_outcome \<Rightarrow> session_form \<Rightarrow> state \<Rightarrow> state" where
  "updateSession r form st =
     (case find (has_id (editingSessionId st)) (sessions st) of
        None \<Rightarrow> st
      | Some s0 \<Rightarrow>
          let s = assign_form form s0;
              st1 = st\<lparr>sessions :=
                      update_first (has_id (editingSessionId st)) (assign_form form)
                        (sessions st)\<rparr>
          in if js_le (netMinutes s) (Num 0)
             then alert ''Invalid time range'' st1
             else openDayPanel (date s) (closeEditModal (saveData r st1)))"

section \<open>File metadata and blobs\<close>

text \<open>
  \<open>saveFiles\<close> writes the folders and, for every file, an object literal of six fields;
  what is kept under the files key is the JSON text of these objects.
\<close>

definition metadata_only :: "file_meta \<Rightarrow> file_meta" where
  "metadata_only f =
     \<lparr>file_id = file_id f,
      file_name = file_name f,
      file_size = file_size f,
      uploadedAt = uploadedAt f,
      file_type = file_type f,
      file_parentId = file_parentId f,
      file_data = None\<rparr>"

definition saveFiles :: "state \<Rightarrow> state" where
  "saveFiles st =
     st\<lparr>bestandenBIMFolders := Some (Json (folders st)),
        bestandenBIMFiles := Some (Json (JSON_files (map metadata_only (uploadedFiles st))))\<rparr>"

definition loadFiles :: "state \<Rightarrow> state" where
  "loadFiles st =
     (let st1 = (case bestandenBIMFiles st of
                   None \<Rightarrow> st
                 | Some Empty_string \<Rightarrow> st
                 | Some Not_json \<Rightarrow> st\<lparr>uploadedFiles := []\<rparr>
                 | Some (Json fs) \<Rightarrow> st\<lparr>uploadedFiles := fs\<rparr>);
          st2 = (case bestandenBIMFolders st1 of
                   None \<Rightarrow> st1
                 | Some Empty_string \<Rightarrow> st1
                 | Some Not_json \<Rightarrow> st1\<lparr>folders := []\<rparr>
                 | Some (Json ds) \<Rightarrow> st1\<lparr>folders := ds\<rparr>)
      in st2\<lparr>currentFolder := None\<rparr>)"

text \<open>
  \<open>getMimeType\<close>: \<open>mimeTypes[ext] || 'application/octet-stream'\<close>, with the lower-cased
  last piece of the name as \<open>ext\<close>. The table is an object literal, so the lookup also
  finds what the object inherits from \<open>Object.prototype\<close>. Two inherited names are in
  lower case: \<open>constructor\<close>, which is the function \<open>Object\<close>, and \<open>__proto__\<close>, which
  is \<open>Object.prototype\<close>; both are truthy and are returned as they are.
\<close>

definition toLowerCase :: "string \<Rightarrow> string" where
  "toLowerCase str =
     map (\<lambda>c. if 65 \<le> (of_char c :: nat) \<and> (of_char c :: nat) \<le> 90
              then char_of ((of_char c :: nat) + 32) else c) str"

definition mimeTypes :: "(string \<times> string) list" where
  "mimeTypes =
     [(''pdf'', ''application/pdf''),
      (''docx'', ''application/vnd.openxmlformats-officedocument.wordprocessingml.document''),
      (''doc'', ''application/msword''),
      (''xlsx'', ''application/vnd.openxmlformats-officedocument.spreadsheetml.sheet''),
      (''xls'', ''application/vnd.ms-excel''),
      (''pptx'', ''application/vnd.openxmlformats-officedocument.presentationml.presentation''),
      (''txt'', ''text/plain''),
      (''jpg'', ''image/jpeg''),
      (''jpeg'', ''image/jpeg''),
      (''png'', ''image/png''),
      (''gif'', ''image/gif''),
      (''zip'', ''application/zip''),
      (''rar'', ''application/x-rar-compressed'')]"

definition getMimeType :: "string \<Rightarrow> js_type" where
  "getMimeType filename =
     (let ext = toLowerCase (last (js_split CHR ''.'' filename))
      in case map_of mimeTypes ext of
           Some m \<Rightarrow> Type_string m
         | None \<Rightarrow>
             if ext = ''constructor'' then Type_Object_function
             else if ext = ''__proto__'' then Type_Object_prototype
             else Type_string ''application/octet-stream'')"

text \<open>\<open>a || b\<close> on a type: the empty string and undefined are falsy.\<close>

definition type_or :: "js_type \<Rightarrow> js_type \<Rightarrow> js_type" where
  "type_or a b = (if a = Type_string [] \<or> a = Type_undefined then b else a)"

text \<open>
  \<open>base64toBlob(base64, mimeType)\<close> decodes with the browser's \<open>atob\<close> and builds a
  \<open>Blob\<close>. It is an argument of the functions that call it; \<open>None\<close> stands for the
  exception \<open>atob\<close> throws on a string that is not base64.

  \<open>migrateLegacyFile\<close>: \<open>put_error\<close> is the error of the IndexedDB write, \<open>None\<close> when it
  succeeds. The blob is written first; only then is the inline payload removed and the
  metadata saved.
\<close>

definition has_file_id :: "string \<Rightarrow> file_meta \<Rightarrow> bool" where
  "has_file_id i f = (file_id f = i)"

definition migrateLegacyFile ::
    "(string \<Rightarrow> js_type \<Rightarrow> blob option) \<Rightarrow> string option \<Rightarrow> string \<Rightarrow> state \<Rightarrow> bool \<times> state" where
  "migrateLegacyFile base64toBlob put_error fileId st =
     (case find (has_file_id fileId) (uploadedFiles st) of
        None \<Rightarrow> (False, st)
      | Some f \<Rightarrow>
          (case file_data f of
             None \<Rightarrow> (False, st)
           | Some d \<Rightarrow>
               if d = [] then (False, st)
               else if \<not> db st then (False, st)
               else
                 (case base64toBlob d (type_or (file_type f) (getMimeType (file_name f))) of
                    None \<Rightarrow> (False, st)
                  | Some b \<Rightarrow>
                      if put_error \<noteq> None then (False, st)
                      else
                        let st1 = st\<lparr>files_store := (files_store st)(fileId \<mapsto> b)\<rparr>;
                            st2 = st1\<lparr>uploadedFiles :=
                                    update_first (has_file_id fileId) (\<lambda>g. g\<lparr>file_data := None\<rparr>)
                                      (uploadedFiles st1)\<rparr>
                        in (True, saveFiles st2))))"

text \<open>
  The script declares \<open>downloadFile\<close> three times: \<open>downloadFile(blob, filename)\<close>, which
  saves a blob under a name, and after it two versions of \<open>downloadFile(fileId)\<close>, which
  look a file up by its id. In a script the last declaration of a name is the one every
  call reaches, here the asynchronous \<open>downloadFile(fileId)\<close>. Its argument is a file id
  when a file row calls it and a Blob when \<open>exportJSON\<close> calls it (the file name handed
  over as second argument is ignored); no \<open>id\<close> of a file, a string, is \<open>===\<close> a Blob.
  The result is what the browser is given to save, if anything, and the new state.
\<close>

datatype 'a argument = Arg_string string | Arg_blob 'a

definition legacy_blob ::
    "(string \<Rightarrow> js_type \<Rightarrow> blob option) \<Rightarrow> file_meta \<Rightarrow> blob option option" where
  "legacy_blob base64toBlob f =
     (case file_data f of
        None \<Rightarrow> Some None
      | Some d \<Rightarrow>
          if d = [] then Some None
          else
            (case base64toBlob d (type_or (file_type f) (getMimeType (file_name f))) of
               None \<Rightarrow> None
             | Some b \<Rightarrow> Some (Some b)))"

definition downloadFile ::
    "(string \<Rightarrow> js_type \<Rightarrow> blob option) \<Rightarrow> 'a argument \<Rightarrow> state \<Rightarrow>
       (string \<times> blob) option \<times> state" where
  "downloadFile base64toBlob fileId st =
     (case find (\<lambda>f. Arg_string (file_id f) = fileId) (uploadedFiles st) of
        None \<Rightarrow> (None, alert ''File not found.'' st)
      | Some f \<Rightarrow>
          (case legacy_blob base64toBlob f of
             None \<Rightarrow> (None, alert ''Error downloading file: '' st)
           | Some (Some b) \<Rightarrow> (Some (file_name f, b), st)
           | Some None \<Rightarrow>
               (case (if db st then files_store st (file_id f) else None) of
                  None \<Rightarrow>
                    (None,
                     alert ''Could not retrieve file data. Please try again or re-upload the file.''
                       st)
                | Some b \<Rightarrow> (Some (file_name f, b), st))))"

section \<open>Export and import\<close>

text \<open>
  The JSON documents the import distinguishes: an object whose \<open>sessions\<close> property is
  an array (the shape \<open>exportJSON\<close> writes), an array, null, and every other value.
\<close>

datatype json_doc =
    Snapshot string int "session list"
  | Bare "session list"
  | Doc_null
  | Doc_other

text \<open>
  \<open>exportJSON\<close> builds the snapshot (\<open>now\<close> is the export date), makes a Blob of its
  JSON text and calls \<open>downloadFile(blob, 'hours-tracker.json')\<close>.
\<close>

definition export_text :: "string \<Rightarrow> state \<Rightarrow> json_doc stored" where
  "export_text now st = Json (Snapshot now TARGET_HOURS (JSON_sessions (sessions st)))"

definition exportJSON ::
    "(string \<Rightarrow> js_type \<Rightarrow> blob option) \<Rightarrow> string \<Rightarrow> state \<Rightarrow>
       (string \<times> blob) option \<times> state" where
  "exportJSON base64toBlob now st = downloadFile base64toBlob (Arg_blob (export_text now st)) st"

text \<open>
  \<open>importJSON\<close>: \<open>chosen\<close> is the text of the file picked in the dialog, \<open>None\<close> when no
  file was picked. Reading \<open>data.sessions\<close> of null throws, which the \<open>catch\<close> reports
  like a parse error; the message of the error follows the prefix.
\<close>

definition importJSON :: "json_doc stored option \<Rightarrow> post_outcome \<Rightarrow> state \<Rightarrow> state" where
  "importJSON chosen r st =
     (case chosen of
        None \<Rightarrow> st
      | Some Empty_string \<Rightarrow> alert ''Failed to parse JSON: '' st
      | Some Not_json \<Rightarrow> alert ''Failed to parse JSON: '' st
      | Some (Json (Snapshot d t ss)) \<Rightarrow>
          alert ''Data imported successfully'' (saveData r (st\<lparr>sessions := ss\<rparr>))
      | Some (Json (Bare ss)) \<Rightarrow>
          alert ''Data imported successfully'' (saveData r (st\<lparr>sessions := ss\<rparr>))
      | Some (Json Doc_null) \<Rightarrow> alert ''Failed to parse JSON: '' st
      | Some (Json Doc_other) \<Rightarrow> alert ''Invalid JSON format'' st)"

section \<open>Uploading a batch of files\<close>

text \<open>
  One file of a batch, with what the environment decides for it: whether the FileReader
  delivers the bytes, the error of the IndexedDB write if any, the id and the time stamp
  the record gets.
\<close>

record upload =
  u_name :: string
  u_type :: string
  u_size :: nat
  u_bytes :: string
  u_read_ok :: bool
  u_put_error :: "string option"
  u_id :: string
  u_now :: string

fun show_nat :: "nat \<Rightarrow> string" where
  "show_nat n =
     (if n < 10 then [char_of (48 + n)]
      else show_nat (n div 10) @ [char_of (48 + n mod 10)])"

declare show_nat.simps [simp del]

definition MAX_BYTES :: nat where
  "MAX_BYTES = 200 * 1024 * 1024"

text \<open>The counters \<open>filesProcessed\<close> and \<open>successCount\<close> travel with the state.\<close>

type_synonym progress = "nat \<times> nat \<times> state"

text \<open>
  The \<open>for\<close> loop runs to its end before any FileReader event: it rejects the files that
  are too large and starts a reader for each of the others.
\<close>

fun reject_oversize :: "nat \<Rightarrow> upload list \<Rightarrow> progress \<Rightarrow> progress" where
  "reject_oversize totalFiles [] p = p"
| "reject_oversize totalFiles (u # us) (filesProcessed, successCount, st) =
     (if u_size u > MAX_BYTES then
        let st1 = alert (''File \"'' @ u_name u @ ''\" is too large (max 200MB). Skipping.'') st;
            filesProcessed1 = filesProcessed + 1;
            st2 = (if filesProcessed1 = totalFiles \<and> successCount > 0 then saveFiles st1 else st1)
        in reject_oversize totalFiles us (filesProcessed1, successCount, st2)
      else reject_oversize totalFiles us (filesProcessed, successCount, st))"

text \<open>
  The event of one reader: \<open>onerror\<close>, or \<open>onload\<close> whose \<open>try\<close> block throws when the
  database is not open or the write fails, and otherwise writes the blob and then pushes
  the metadata. \<open>fmt\<close> stands for \<open>formatFileSize\<close>, which computes the display string
  with floating-point logarithms.
\<close>

definition fileObj :: "(nat \<Rightarrow> string) \<Rightarrow> string option \<Rightarrow> upload \<Rightarrow> file_meta" where
  "fileObj fmt folder u =
     \<lparr>file_id = u_id u,
      file_name = u_name u,
      file_size = fmt (u_size u),
      uploadedAt = u_now u,
      file_type = type_or (Type_string (u_type u)) (getMimeType (u_name u)),
      file_parentId = folder,
      file_data = None\<rparr>"

definition upload_failed :: "nat \<Rightarrow> string \<Rightarrow> progress \<Rightarrow> progress" where
  "upload_failed totalFiles msg p =
     (case p of (filesProcessed, successCount, st) \<Rightarrow>
        let st1 = alert msg st;
            filesProcessed1 = filesProcessed + 1
        in (filesProcessed1, successCount,
            if filesProcessed1 = totalFiles \<and> successCount > 0 then saveFiles st1 else st1))"

definition reader_event :: "(nat \<Rightarrow> string) \<Rightarrow> nat \<Rightarrow> upload \<Rightarrow> progress \<Rightarrow> progress" where
  "reader_event fmt totalFiles u p =
     (case p of (filesProcessed, successCount, st) \<Rightarrow>
        if \<not> u_read_ok u then
          upload_failed totalFiles (''Failed to read file: '' @ u_name u) p
        else if \<not> db st then
          upload_failed totalFiles
            (''Error uploading '' @ u_name u @
             '': File storage (IndexedDB) is not initialized. Please refresh the page and try again.'') p
        else
          (case u_put_error u of
             Some msg \<Rightarrow> upload_failed totalFiles (''Error uploading '' @ u_name u @ '': '' @ msg) p
           | None \<Rightarrow>
               let st1 = st\<lparr>files_store := (files_store st)(u_id u \<mapsto> Blob (u_bytes u) (u_type u))\<rparr>;
                   st2 = st1\<lparr>uploadedFiles := uploadedFiles st1 @ [fileObj fmt (currentFolder st1) u]\<rparr>;
                   successCount1 = successCount + 1;
                   filesProcessed1 = filesProcessed + 1
               in (filesProcessed1, successCount1,
                   if filesProcessed1 = totalFiles \<and> successCount1 > 0
                   then alert (''Successfully uploaded '' @ show_nat successCount1 @ '' file(s)'')
                          (saveFiles st2)
                   else st2)))"

fun reader_events :: "(nat \<Rightarrow> string) \<Rightarrow> nat \<Rightarrow> upload list \<Rightarrow> progress \<Rightarrow> progress" where
  "reader_events fmt totalFiles [] p = p"
| "reader_events fmt totalFiles (u # us) p =
     reader_events fmt totalFiles us (reader_event fmt totalFiles u p)"

text \<open>
  \<open>handleFiles\<close>. The readers complete in an order the script does not fix; the model
  takes the order of the batch.
\<close>

definition handleFiles :: "(nat \<Rightarrow> string) \<Rightarrow> upload list \<Rightarrow> state \<Rightarrow> state" where
  "handleFiles fmt files st =
     (let totalFiles = length files;
          p1 = reject_oversize totalFiles files (0, 0, st);
          p2 = reader_events fmt totalFiles (filter (\<lambda>u. \<not> u_size u > MAX_BYTES) files) p1
      in snd (snd p2))"

section \<open>Folders\<close>

definition trim :: "string \<Rightarrow> string" where
  "trim str = rev (dropWhile is_space (rev (dropWhile is_space str)))"

text \<open>\<open>createFolder\<close>; \<open>stamp\<close> is \<open>Date.now()\<close> as a string, \<open>now\<close> the creation time.\<close>

definition createFolder :: "string \<Rightarrow> string \<Rightarrow> string \<Rightarrow> state \<Rightarrow> state" where
  "createFolder input stamp now st =
     (let name = trim input in
      if name = [] then alert ''Please enter a folder name'' st
      else
        let d = \<lparr>folder_id = ''folder_'' @ stamp,
                 folder_name = name,
                 folder_parentId = currentFolder st,
                 createdAt = now\<rparr>
        in saveFiles (st\<lparr>folders := folders st @ [d]\<rparr>))"

datatype item_type = File_item | Folder_item

definition has_folder_id :: "string \<Rightarrow> folder \<Rightarrow> bool" where
  "has_folder_id i d = (folder_id d = i)"

definition moveItem :: "string \<Rightarrow> item_type \<Rightarrow> string option \<Rightarrow> state \<Rightarrow> state" where
  "moveItem itemId itemType targetFolderId st =
     (case itemType of
        File_item \<Rightarrow>
          (case find (has_file_id itemId) (uploadedFiles st) of
             None \<Rightarrow> st
           | Some f \<Rightarrow>
               saveFiles (st\<lparr>uploadedFiles :=
                 update_first (has_file_id itemId) (\<lambda>g. g\<lparr>file_parentId := targetFolderId\<rparr>)
                   (uploadedFiles st)\<rparr>))
      | Folder_item \<Rightarrow>
          (case find (has_folder_id itemId) (folders st) of
             None \<Rightarrow> st
           | Some d \<Rightarrow>
               if targetFolderId \<noteq> Some itemId then
                 saveFiles (st\<lparr>folders :=
                   update_first (has_folder_id itemId) (\<lambda>g. g\<lparr>folder_parentId := targetFolderId\<rparr>)
                     (folders st)\<rparr>)
               else st))"

text \<open>
  \<open>deleteFileFromIndexedDB(id).catch(...)\<close>: the entry is deleted when the database is
  open; when it is not, the rejection is logged and nothing changes.
\<close>

definition deleteFileFromIndexedDB :: "string \<Rightarrow> state \<Rightarrow> state" where
  "deleteFileFromIndexedDB fileId st =
     (if db st then st\<lparr>files_store := (files_store st)(fileId := None)\<rparr> else st)"

definition delete_files_of :: "string \<Rightarrow> state \<Rightarrow> state" where
  "delete_files_of parentId st =
     (let filesToDelete = filter (\<lambda>f. file_parentId f = Some parentId) (uploadedFiles st);
          st1 = fold (\<lambda>f. deleteFileFromIndexedDB (file_id f)) filesToDelete st
      in st1\<lparr>uploadedFiles := filter (\<lambda>f. file_parentId f \<noteq> Some parentId) (uploadedFiles st1)\<rparr>)"

text \<open>
  The local function \<open>deleteContents\<close> of \<open>deleteFolder\<close>. Its first statement is
  \<open>folders = folders.filter(callback)\<close>: \<open>filter\<close> walks the array that \<open>folders\<close> holds
  when the statement starts, the callback calls \<open>deleteContents\<close> for every child (which
  assigns \<open>folders\<close> and \<open>uploadedFiles\<close>), and the assignment of the outer statement
  happens when the walk is over. \<open>filter_callback\<close> is that walk: it returns the elements
  kept and the state the nested calls leave.

  The recursion follows the parent links and does not end on a folder list with a cycle,
  where the script stops with a stack overflow. The first argument bounds the depth of
  the calls; \<open>None\<close> is the overflow.
\<close>

fun deleteContents :: "nat \<Rightarrow> string \<Rightarrow> state \<Rightarrow> state option"
  and filter_callback :: "nat \<Rightarrow> string \<Rightarrow> folder list \<Rightarrow> state \<Rightarrow> (folder list \<times> state) option"
where
  "deleteContents 0 parentId st = None"
| "deleteContents (Suc depth) parentId st =
     (case filter_callback depth parentId (folders st) st of
        None \<Rightarrow> None
      | Some (kept, st1) \<Rightarrow> Some (delete_files_of parentId (st1\<lparr>folders := kept\<rparr>)))"
| "filter_callback depth parentId [] st = Some ([], st)"
| "filter_callback depth parentId (f # fs) st =
     (if folder_parentId f = Some parentId then
        (case deleteContents depth (folder_id f) st of
           None \<Rightarrow> None
         | Some st1 \<Rightarrow> filter_callback depth parentId fs st1)
      else
        (case filter_callback depth parentId fs st of
           None \<Rightarrow> None
         | Some (kept, st1) \<Rightarrow> Some (f # kept, st1)))"

text \<open>
  \<open>deleteFolder\<close>; \<open>confirmed\<close> is the answer to the confirmation dialog.
\<close>

definition deleteFolder :: "bool \<Rightarrow> nat \<Rightarrow> string \<Rightarrow> state \<Rightarrow> state option" where
  "deleteFolder confirmed depth folderId st =
     (if confirmed then
        (case deleteContents depth folderId st of
           None \<Rightarrow> None
         | Some st1 \<Rightarrow> Some (saveFiles st1))
      else Some st)"

section \<open>The state at start-up and example inputs\<close>

text \<open>
  The variables as the script declares them, before the database is opened, over empty
  stores.
\<close>

definition initial_state :: state where
  "initial_state =
     \<lparr>sessions = [],
      selectedDate = None,
      editingSessionId = None,
      uploadedFiles = [],
      folders = [],
      currentFolder = None,
      db = False,
      files_store = Map.empty,
      hoursTrackerData = None,
      bestandenBIMFiles = None,
      bestandenBIMFolders = None,
      server = None,
      posted = [],
      alerts = []\<rparr>"

text \<open>The form of scenario A, and the same form with the end before the start.\<close>

definition scenario_A :: session_form where
  "scenario_A =
     \<lparr>f_date = ''2024-03-01'',
      f_startTime = ''08:30'',
      f_endTime = ''17:00'',
      f_breakMinutes = ''30'',
      f_note = [],
      f_category = ''Internship''\<rparr>"

definition end_before_start :: session_form where
  "end_before_start = scenario_A\<lparr>f_startTime := ''09:00'', f_endTime := ''08:00''\<rparr>"

text \<open>The session of scenario A, saved, and then opened in the edit form.\<close>

definition saved_state :: state where
  "saved_state = saveSession ''s1'' (Post_response 200) scenario_A initial_state"

definition editing_state :: state where
  "editing_state = saved_state\<lparr>editingSessionId := Some ''s1''\<rparr>"

text \<open>
  Folder lists: a single folder in the root, and a folder \<open>A\<close> that holds a file and a
  folder \<open>B\<close>, which holds a folder \<open>C\<close> with a file, beside a folder \<open>D\<close> with a file.
\<close>

definition mk_folder :: "string \<Rightarrow> string option \<Rightarrow> folder" where
  "mk_folder i p =
     \<lparr>folder_id = i, folder_name = i, folder_parentId = p, createdAt = ''2024-03-01T08:00:00.000Z''\<rparr>"

definition mk_file :: "string \<Rightarrow> string option \<Rightarrow> file_meta" where
  "mk_file i p =
     \<lparr>file_id = i, file_name = i, file_size = ''1 KB'',
      uploadedAt = ''2024-03-01T08:00:00.000Z'', file_type = Type_string ''text/plain'',
      file_parentId = p, file_data = None\<rparr>"

definition one_folder_state :: state where
  "one_folder_state = initial_state\<lparr>folders := [mk_folder ''F'' None]\<rparr>"

definition nested_state :: state where
  "nested_state =
     initial_state
       \<lparr>folders := [mk_folder ''A'' None, mk_folder ''B'' (Some ''A''),
                   mk_folder ''C'' (Some ''B''), mk_folder ''D'' None],
        uploadedFiles := [mk_file ''x'' (Some ''A''), mk_file ''y'' (Some ''C''),
                         mk_file ''z'' (Some ''D'')]\<rparr>"

section \<open>Notions the stated properties use\<close>

text \<open>
  A well-formed time of day is \<open>HH:MM\<close> with the hour below 24 and the minute below 60,
  alone or followed by \<open>:\<close> and a seconds part; its minutes since midnight are read off
  the four digits. These two follow the wording of the properties, not the script.
\<close>

fun wf_time :: "string \<Rightarrow> bool" where
  "wf_time (h1 # h2 # c # m1 # m2 # rest) =
     (is_digit h1 \<and> is_digit h2 \<and> c = CHR '':'' \<and> is_digit m1 \<and> is_digit m2 \<and>
      10 * digit_val h1 + digit_val h2 < 24 \<and> 10 * digit_val m1 + digit_val m2 < 60 \<and>
      (rest = [] \<or> hd rest = CHR '':''))"
| "wf_time _ = False"

fun minutes_since_midnight :: "string \<Rightarrow> int" where
  "minutes_since_midnight (h1 # h2 # c # m1 # m2 # rest) =
     int ((10 * digit_val h1 + digit_val h2) * 60 + (10 * digit_val m1 + digit_val m2))"
| "minutes_since_midnight _ = 0"

text \<open>
  The remote fetch fails: a network error, or a response whose status is not a success.
\<close>

definition remote_failed :: "get_outcome \<Rightarrow> bool" where
  "remote_failed r =
     (case r of
        Get_rejected \<Rightarrow> True
      | Get_response status b \<Rightarrow> \<not> response_ok status)"

definition post_ok :: "post_outcome \<Rightarrow> bool" where
  "post_ok r =
     (case r of
        Post_rejected \<Rightarrow> False
      | Post_response status \<Rightarrow> response_ok status)"

text \<open>
  A file of a batch is too large; its blob gets written (the reader delivers the bytes,
  the database is open and the write succeeds); the message shown for a file too large.
\<close>

definition too_large :: "upload \<Rightarrow> bool" where
  "too_large u = (u_size u > MAX_BYTES)"

definition blob_written :: "state \<Rightarrow> upload \<Rightarrow> bool" where
  "blob_written st u = (u_read_ok u \<and> db st \<and> u_put_error u = None)"

definition persisted_files :: "state \<Rightarrow> file_meta list" where
  "persisted_files st =
     (case bestandenBIMFiles st of
        Some (Json fs) \<Rightarrow> fs
      | _ \<Rightarrow> [])"

definition too_large_message :: "upload \<Rightarrow> string" where
  "too_large_message u = ''File \"'' @ u_name u @ ''\" is too large (max 200MB). Skipping.''"

text \<open>
  A folder list without cycles: some rank decreases from every folder to its children.
\<close>

definition ranked :: "(string \<Rightarrow> nat) \<Rightarrow> state \<Rightarrow> bool" where
  "ranked rank st =
     (\<forall>f\<in>set (folders st). \<forall>p. folder_parentId f = Some p \<longrightarrow> rank (folder_id f) < rank p)"

text \<open>
  The states whose session list holds only sessions made by \<open>saveSession\<close> and edited by
  \<open>updateSession\<close>; \<open>openEditModal\<close> sets \<open>editingSessionId\<close> before an edit.
\<close>

inductive app_made :: "state \<Rightarrow> bool" where
  start: "sessions st = [] \<Longrightarrow> app_made st"
| add: "app_made st \<Longrightarrow> app_made (saveSession new_id r form st)"
| edit: "app_made st \<Longrightarrow> app_made (updateSession r form (st\<lparr>editingSessionId := e\<rparr>))"

text \<open>
  The keys of the JSON object that a record read from the files key stands for: a field
  that is undefined has no key.
\<close>

definition persisted_keys :: "file_meta \<Rightarrow> string list" where
  "persisted_keys f =
     [''id'', ''name'', ''size'', ''uploadedAt''] @
     (if file_type f = Type_undefined then [] else [''type'']) @
     [''parentId''] @
     (case file_data f of None \<Rightarrow> [] | Some d \<Rightarrow> [''data''])"

text \<open>
  Two sessions in the older format, with \<open>netHours\<close> 7.5 and 0.5.
\<close>

definition older_sessions :: "session list" where
  "older_sessions =
     [\<lparr>session_id = ''session-123'', date = ''2024-02-11'', startTime = ''09:00'',
       endTime = ''17:00'', breakMinutes = 30, note_text = [], category = [],
       netMinutes = Null, netHours = Some (Double (15 / 2))\<rparr>,
      \<lparr>session_id = ''session-124'', date = ''2024-02-12'', startTime = ''09:00'',
       endTime = ''09:30'', breakMinutes = 0, note_text = [], category = [],
       netMinutes = Null, netHours = Some (Double (1 / 2))\<rparr>]"

text \<open>A legacy record with an inline payload, loaded from localStorage, with no blob.\<close>

definition legacy_state :: state where
  "legacy_state =
     initial_state
       \<lparr>uploadedFiles := [(mk_file ''old'' None)\<lparr>file_data := Some ''aGVsbG8=''\<rparr>],
        bestandenBIMFiles := Some (Json [(mk_file ''old'' None)\<lparr>file_data := Some ''aGVsbG8=''\<rparr>]),
        db := True\<rparr>"

text \<open>A batch of a small file, a file over the limit and a file of exactly 200 MiB.\<close>

definition mk_upload :: "string \<Rightarrow> nat \<Rightarrow> upload" where
  "mk_upload n sz =
     \<lparr>u_name = n, u_type = [], u_size = sz, u_bytes = ''hello'', u_read_ok = True,
      u_put_error = None, u_id = ''id_'' @ n, u_now = ''2024-03-01T08:00:00.000Z''\<rparr>"

definition batch :: "upload list" where
  "batch = [mk_upload ''a.pdf'' 5, mk_upload ''big.zip'' 209715201, mk_upload ''c.txt'' 209715200]"

text \<open>A batch of one file without a MIME type whose name ends in \<open>.constructor\<close>.\<close>

definition constructor_batch :: "upload list" where
  "constructor_batch = [mk_upload ''x.constructor'' 5]"

section \<open>Net minutes of well-formed times\<close>

lemma digit_not_colon: "is_digit c \<Longrightarrow> c \<noteq> CHR '':''"
  by (auto simp: is_digit_def)

lemma wf_timeE:
  assumes "wf_time s"
  obtains h1 h2 m1 m2 rest where "s = h1 # h2 # CHR '':'' # m1 # m2 # rest"
    "is_digit h1" "is_digit h2" "is_digit m1" "is_digit m2" "rest = [] \<or> hd rest = CHR '':''"
  using assms by (induction s rule: wf_time.induct) auto

lemma Number_two_digits:
  "is_digit a \<Longrightarrow> is_digit b \<Longrightarrow> Number [a, b] = Num (int (10 * digit_val a + digit_val b))"
  by (simp add: Number_def decimal_def)

lemma split_time:
  assumes "is_digit h1" "is_digit h2" "is_digit m1" "is_digit m2"
    and "rest = [] \<or> hd rest = CHR '':''"
  shows "\<exists>more. js_split CHR '':'' (h1 # h2 # CHR '':'' # m1 # m2 # rest) =
           [h1, h2] # [m1, m2] # more"
proof (cases rest)
  case Nil
  with assms show ?thesis by (simp add: digit_not_colon)
next
  case (Cons c r)
  with assms(5) have "c = CHR '':''" by simp
  with Cons assms(1-4) show ?thesis by (simp add: digit_not_colon)
qed

lemma total_minutes:
  assumes "wf_time s"
  shows "s \<noteq> [] \<and>
    js_add (js_mul (element (map Number (js_split CHR '':'' s)) 0) (Num 60))
      (element (map Number (js_split CHR '':'' s)) 1) = Num (minutes_since_midnight s)"
proof -
  from assms obtain h1 h2 m1 m2 rest where s: "s = h1 # h2 # CHR '':'' # m1 # m2 # rest"
    and d: "is_digit h1" "is_digit h2" "is_digit m1" "is_digit m2"
    and r: "rest = [] \<or> hd rest = CHR '':''"
    by (rule wf_timeE)
  from split_time[OF d r] obtain more where
    sp: "js_split CHR '':'' (h1 # h2 # CHR '':'' # m1 # m2 # rest) = [h1, h2] # [m1, m2] # more"
    by blast
  show ?thesis
    unfolding s sp
    by (simp add: Number_two_digits d element_def js_add_def js_mul_def js_binop_def)
qed

text \<open>
  C3. For all well-formed time-of-day strings \<open>startStr\<close> and \<open>endStr\<close> and every break
  (non-negative or not): when the end is not after the start, compared as minutes since
  midnight, \<open>calculateNetMinutes\<close> returns 0 whatever the break is; otherwise it returns
  the maximum of 0 and the minutes between start and end less the break.
\<close>

theorem calculateNetMinutes_well_formed:
  assumes "wf_time startStr" and "wf_time endStr"
  shows "calculateNetMinutes startStr endStr brk =
     (if minutes_since_midnight endStr \<le> minutes_since_midnight startStr then Num 0
      else Num (max 0 ((minutes_since_midnight endStr - minutes_since_midnight startStr) - brk)))"
  using total_minutes[OF assms(1)] total_minutes[OF assms(2)]
  by (simp add: calculateNetMinutes_def Let_def js_le_def js_sub_def Math_max_def js_binop_def)

theorem calculateNetMinutes_well_formed_witness:
  "wf_time ''09:15'' \<and> wf_time ''12:00:30'' \<and>
   calculateNetMinutes ''09:15'' ''12:00:30'' 45 = Num 120 \<and>
   calculateNetMinutes ''12:00:30'' ''09:15'' 45 = Num 0 \<and>
   calculateNetMinutes ''09:15'' ''12:00:30'' 500 = Num 0"
proof -
  have a: "wf_time ''09:15''" by (simp add: is_digit_def digit_val_def)
  have b: "wf_time ''12:00:30''" by (simp add: is_digit_def digit_val_def)
  show ?thesis
    using a b calculateNetMinutes_well_formed[OF a b, of 45]
      calculateNetMinutes_well_formed[OF b a, of 45]
      calculateNetMinutes_well_formed[OF a b, of 500]
    by (simp add: digit_val_def)
qed

section \<open>Adding and editing a session: facts\<close>

lemma parseInt_30: "parseInt ''30'' = Num 30"
  by (simp add: parseInt_def is_space_def is_digit_def decimal_def digit_val_def Let_def)

lemma net_A: "calculateNetMinutes ''08:30'' ''17:00'' 30 = Num 480"
  by (simp add: calculateNetMinutes_def Number_def element_def js_add_def js_sub_def js_mul_def
      js_le_def Math_max_def js_binop_def is_digit_def decimal_def digit_val_def)

lemma net_B: "calculateNetMinutes ''09:00'' ''08:00'' 30 = Num 0"
  by (simp add: calculateNetMinutes_def Number_def element_def js_add_def js_sub_def js_mul_def
      js_le_def Math_max_def js_binop_def is_digit_def decimal_def digit_val_def)

lemma sessions_closeDayPanel: "sessions (closeDayPanel st) = sessions st"
  by (simp add: closeDayPanel_def)

lemma alerts_closeDayPanel: "alerts (closeDayPanel st) = alerts st"
  by (simp add: closeDayPanel_def)

lemma sessions_saveData: "sessions (saveData r st) = sessions st"
  by (simp add: saveData_def Let_def split: post_outcome.splits)

lemma alerts_saveData: "alerts (saveData r st) = alerts st"
  by (simp add: saveData_def Let_def split: post_outcome.splits)

lemma sessions_alert: "sessions (alert m st) = sessions st"
  by (simp add: alert_def)

lemma saveSession_scenario_A:
  "saveSession new_id r scenario_A st =
     closeDayPanel (saveData r (st\<lparr>sessions := sessions st @
       [\<lparr>session_id = new_id, date = ''2024-03-01'', startTime = ''08:30'',
         endTime = ''17:00'', breakMinutes = 30, note_text = [],
         category = ''Internship'', netMinutes = Num 480, netHours = None\<rparr>]\<rparr>))"
  by (simp add: saveSession_def scenario_A_def parseInt_30 net_A js_le_def)

lemma sessions_saved_state:
  "sessions saved_state =
     [\<lparr>session_id = ''s1'', date = ''2024-03-01'', startTime = ''08:30'',
       endTime = ''17:00'', breakMinutes = 30, note_text = [],
       category = ''Internship'', netMinutes = Num 480, netHours = None\<rparr>]"
  by (simp add: saved_state_def saveSession_scenario_A sessions_closeDayPanel sessions_saveData
      initial_state_def)

lemma alerts_saved_state: "alerts saved_state = []"
  by (simp add: saved_state_def saveSession_scenario_A alerts_closeDayPanel alerts_saveData
      initial_state_def)

text \<open>
  C4, as the script computes it. Saving the form with date 2024-03-01, start 08:30, end
  17:00 and break 30 succeeds: no message is shown and the session appended to the list
  has \<open>netMinutes\<close> 480, the 510 minutes from 08:30 to 17:00 less the break of 30.
\<close>

theorem scenario_A_net_minutes:
  "sessions (saveSession new_id r scenario_A st) =
     sessions st @
       [\<lparr>session_id = new_id, date = ''2024-03-01'', startTime = ''08:30'',
         endTime = ''17:00'', breakMinutes = 30, note_text = [],
         category = ''Internship'', netMinutes = Num 480, netHours = None\<rparr>] \<and>
   alerts (saveSession new_id r scenario_A st) = alerts st"
  by (simp add: saveSession_scenario_A sessions_closeDayPanel sessions_saveData
      alerts_closeDayPanel alerts_saveData)

theorem scenario_A_net_minutes_witness:
  "map netMinutes (sessions (saveSession ''s1'' Post_rejected scenario_A initial_state)) = [Num 480] \<and>
   alerts (saveSession ''s1'' Post_rejected scenario_A initial_state) = []"
  using scenario_A_net_minutes[of "''s1''" Post_rejected initial_state]
  by (simp add: initial_state_def)

text \<open>C4 as stated asks for 450 net minutes; the session saved carries another value.\<close>

theorem scenario_A_counterexample:
  "map netMinutes (sessions (saveSession ''s1'' (Post_response 200) scenario_A initial_state)) \<noteq>
     [Num 450]"
  by (simp add: saveSession_scenario_A sessions_closeDayPanel sessions_saveData initial_state_def)

text \<open>
  Whenever the session being edited exists and the form gives net minutes that are not
  above 0, \<open>updateSession\<close> shows its message on a list in which the form is already
  assigned to that session.
\<close>

lemma updateSession_rejected:
  assumes "find (has_id (editingSessionId st)) (sessions st) = Some s0"
    and "js_le (netMinutes (assign_form form s0)) (Num 0)"
  shows "updateSession r form st =
     alert ''Invalid time range''
       (st\<lparr>sessions :=
            update_first (has_id (editingSessionId st)) (assign_form form) (sessions st)\<rparr>)"
  using assms by (simp add: updateSession_def Let_def)

text \<open>
  C2 at a concrete edit. The session of scenario A is open in the edit form and the form
  is submitted with start 09:00 and end 08:00, whose net minutes are 0. \<open>updateSession\<close>
  shows ``Invalid time range'', and the session in the list already carries the new
  start, the new end and \<open>netMinutes = 0\<close>: the fields are assigned before the check.
\<close>

theorem updateSession_rejected_mutates:
  "sessions (updateSession r end_before_start editing_state) =
     [\<lparr>session_id = ''s1'', date = ''2024-03-01'', startTime = ''09:00'',
       endTime = ''08:00'', breakMinutes = 30, note_text = [],
       category = ''Internship'', netMinutes = Num 0, netHours = None\<rparr>] \<and>
   alerts (updateSession r end_before_start editing_state) = [''Invalid time range''] \<and>
   sessions (updateSession r end_before_start editing_state) \<noteq> sessions editing_state"
  by (simp add: updateSession_def editing_state_def sessions_saved_state alerts_saved_state
      has_id_def assign_form_def end_before_start_def scenario_A_def
      parseInt_30 net_B js_le_def alert_def Let_def)

section \<open>Loading and saving: facts\<close>

lemma cache_saveData:
  "hoursTrackerData (saveData r st) = Some (Json (JSON_sessions (sessions st)))"
  by (simp add: saveData_def Let_def split: post_outcome.splits)

lemma server_saveData:
  "server (saveData r st) = (if post_ok r then Some (push_body_of st) else server st)"
  by (simp add: saveData_def Let_def post_ok_def push_body_of_def split: post_outcome.splits)

lemma loadData_try_failed: "remote_failed r \<Longrightarrow> loadData_try r st = None"
  by (simp add: remote_failed_def loadData_try_def split: get_outcome.splits)

text \<open>
  C5, as the script behaves. When the remote fetch fails (network error or a status that
  is not a success), \<open>loadData\<close> returns without an error or a message, and the session
  list afterwards is: the cached list \<open>C\<close> when the cache entry parses to \<open>C\<close>; empty when
  the cache entry is a string that does not parse; and what it was before when there is
  no cache entry or the entry is the empty string. So with no parseable cache the list is
  empty when it was empty before, as it is at start-up.
\<close>

theorem loadData_remote_failure:
  assumes "remote_failed r"
  shows "sessions (loadData r st) =
           (case hoursTrackerData st of
              None \<Rightarrow> sessions st
            | Some Empty_string \<Rightarrow> sessions st
            | Some Not_json \<Rightarrow> []
            | Some (Json C) \<Rightarrow> C) \<and>
         (sessions st = [] \<longrightarrow> (\<forall>C. hoursTrackerData st \<noteq> Some (Json C)) \<longrightarrow>
            sessions (loadData r st) = []) \<and>
         alerts (loadData r st) = alerts st"
  using loadData_try_failed[OF assms, of st]
  by (auto simp: loadData_def loadData_catch_def split: option.splits stored.splits)

theorem loadData_remote_failure_witness:
  "remote_failed (Get_response 500 Body_not_json) \<and>
   sessions (loadData (Get_response 500 Body_not_json)
      (initial_state\<lparr>hoursTrackerData := Some (Json (sessions saved_state))\<rparr>)) =
     sessions saved_state \<and>
   remote_failed Get_rejected \<and>
   sessions (loadData Get_rejected (initial_state\<lparr>hoursTrackerData := Some Not_json\<rparr>)) = [] \<and>
   sessions initial_state = [] \<and>
   hoursTrackerData initial_state = None \<and>
   sessions (loadData Get_rejected initial_state) = []"
proof -
  have a: "remote_failed (Get_response 500 Body_not_json)"
    by (simp add: remote_failed_def response_ok_def)
  have b: "remote_failed Get_rejected"
    by (simp add: remote_failed_def)
  show ?thesis
    using a b
      loadData_remote_failure[OF a,
        of "initial_state\<lparr>hoursTrackerData := Some (Json (sessions saved_state))\<rparr>"]
      loadData_remote_failure[OF b, of "initial_state\<lparr>hoursTrackerData := Some Not_json\<rparr>"]
      loadData_remote_failure[OF b, of initial_state]
    by (simp add: initial_state_def)
qed

text \<open>
  C5 as stated makes the list empty whenever the remote fails and the cache yields
  nothing. With a session in memory, no cache entry and a response of status 500, the
  session is still there after \<open>loadData\<close>.
\<close>

theorem loadData_remote_failure_counterexample:
  "sessions (loadData (Get_response 500 Body_not_json)
      (editing_state\<lparr>hoursTrackerData := None\<rparr>)) \<noteq> []"
  by (simp add: loadData_def loadData_try_def loadData_catch_def response_ok_def
      editing_state_def sessions_saved_state)

text \<open>
  C6. For every session list and every outcome of the push, \<open>saveData\<close> leaves the JSON
  text of the list under the cache key, leaves the list itself unchanged and shows no
  message; the server holds the pushed body exactly when the push succeeded and is
  unchanged otherwise.
\<close>

theorem saveData_writes_cache:
  "hoursTrackerData (saveData r st) = Some (Json (JSON_sessions (sessions st))) \<and>
   sessions (saveData r st) = sessions st \<and>
   alerts (saveData r st) = alerts st \<and>
   server (saveData r st) = (if post_ok r then Some (push_body_of st) else server st)"
  by (simp add: cache_saveData sessions_saveData alerts_saveData server_saveData)

theorem saveData_writes_cache_witness:
  "hoursTrackerData (saveData (Post_response 500) editing_state) =
     Some (Json (sessions editing_state)) \<and>
   hoursTrackerData (saveData Post_rejected editing_state) =
     Some (Json (sessions editing_state)) \<and>
   alerts (saveData Post_rejected editing_state) = [] \<and>
   server (saveData (Post_response 500) (editing_state\<lparr>server := None\<rparr>)) = None"
  using saveData_writes_cache[of "Post_response 500" editing_state]
    saveData_writes_cache[of Post_rejected editing_state]
    saveData_writes_cache[of "Post_response 500" "editing_state\<lparr>server := None\<rparr>"]
  by (simp add: editing_state_def sessions_saved_state alerts_saved_state JSON_sessions_def
      json_session_def post_ok_def response_ok_def)

section \<open>Export and import: facts\<close>

lemma import_snapshot: "sessions (importJSON (Some (Json (Snapshot d t ss))) r st) = ss"
  by (simp add: importJSON_def sessions_alert sessions_saveData)

lemma import_bare: "sessions (importJSON (Some (Json (Bare ss))) r st) = ss"
  by (simp add: importJSON_def sessions_alert sessions_saveData)

text \<open>
  The import replaces the list by the \<open>sessions\<close> array of the text \<open>exportJSON\<close> builds,
  were that text to reach a file.
\<close>

lemma import_export_text:
  "sessions (importJSON (Some (export_text now st)) r st') = JSON_sessions (sessions st)"
  by (simp add: export_text_def import_snapshot)

text \<open>
  C8 at every session list. \<open>exportJSON\<close> hands its Blob to \<open>downloadFile\<close>, whose last
  declaration takes the argument for a file id: no file has it, ``File not found.'' is
  shown and the browser is given nothing to save. There is no exported output that an
  import could read back.
\<close>

theorem exportJSON_downloads_nothing:
  "exportJSON base64toBlob now st = (None, alert ''File not found.'' st)"
proof -
  have "find (\<lambda>f. Arg_string (file_id f) = Arg_blob (export_text now st)) (uploadedFiles st) = None"
    by (simp add: find_None_iff)
  then show ?thesis
    by (simp add: exportJSON_def downloadFile_def)
qed

section \<open>The total pushed to the server: facts\<close>

lemma posted_saveData: "posted (saveData r st) = posted st @ [push_body_of st]"
  by (simp add: saveData_def Let_def push_body_of_def split: post_outcome.splits)

lemma netHours_update_first:
  "\<forall>s\<in>set ss. netHours s = None \<Longrightarrow> (\<And>s. netHours (f s) = netHours s) \<Longrightarrow>
   \<forall>s\<in>set (update_first P f ss). netHours s = None"
  by (induction ss) auto

lemma netHours_saveSession:
  "\<forall>s\<in>set (sessions st). netHours s = None \<Longrightarrow>
   \<forall>s\<in>set (sessions (saveSession new_id r form st)). netHours s = None"
  by (auto simp: saveSession_def Let_def alert_def closeDayPanel_def sessions_saveData)

lemma netHours_assign_form: "netHours (assign_form form s) = netHours s"
  by (simp add: assign_form_def Let_def)

lemma netHours_updateSession:
  "\<forall>s\<in>set (sessions st). netHours s = None \<Longrightarrow>
   \<forall>s\<in>set (sessions (updateSession r form st)). netHours s = None"
  using netHours_update_first[of "sessions st" "assign_form form" "has_id (editingSessionId st)"]
  by (auto simp: updateSession_def Let_def alert_def closeEditModal_def openDayPanel_def
      sessions_saveData netHours_assign_form split: option.splits)

lemma app_made_netHours: "app_made st \<Longrightarrow> \<forall>s\<in>set (sessions st). netHours s = None"
proof (induction rule: app_made.induct)
  case (start st)
  then show ?case by simp
next
  case (add st new_id r form)
  from add.IH show ?case by (rule netHours_saveSession)
next
  case (edit st r form e)
  have "\<forall>s\<in>set (sessions (st\<lparr>editingSessionId := e\<rparr>)). netHours s = None"
    using edit.IH by simp
  then show ?case by (rule netHours_updateSession)
qed

lemma sum_none: "\<forall>s\<in>set ss. netHours s = None \<Longrightarrow> totalHours ss = Double 0"
proof -
  have "\<forall>s\<in>set ss. netHours s = None \<Longrightarrow>
      foldl (\<lambda>sum s. double_add sum (netHours_or_zero s)) (Double 0) ss = Double 0"
    by (induction ss) (simp_all add: netHours_or_zero_def round_double_def)
  then show "\<forall>s\<in>set ss. netHours s = None \<Longrightarrow> totalHours ss = Double 0"
    by (simp add: totalHours_def)
qed

lemma round_15_2: "round_double (15 / 2) = Double (15 / 2)"
  by code_simp

lemma round_8: "round_double 8 = Double 8"
  by code_simp

lemma totalHours_older: "totalHours older_sessions = Double 8"
  by (simp add: totalHours_def older_sessions_def netHours_or_zero_def round_15_2 round_8)

text \<open>
  C10. Every \<open>saveData\<close> hands one more body to \<open>fetch\<close>, whatever the outcome of the
  request, and the \<open>totalHours\<close> of that body is the sum, in doubles and from left to
  right, of the \<open>netHours\<close> of the sessions, 0 standing in where the field is absent.
  \<open>saveSession\<close> builds sessions without that field and \<open>updateSession\<close> never sets it,
  so for every session list made with these two alone the total pushed is 0, whatever
  the net minutes recorded.
\<close>

theorem pushed_totalHours:
  "posted (saveData r st) = posted st @ [push_body_of st] \<and>
   body_totalHours (push_body_of st) =
     json_total (foldl (\<lambda>sum s. double_add sum (netHours_or_zero s)) (Double 0) (sessions st)) \<and>
   (app_made st \<longrightarrow> body_totalHours (last (posted (saveData r st))) = Some 0)"
  using app_made_netHours[of st] sum_none[of "sessions st"]
  by (auto simp: posted_saveData push_body_of_def totalHours_def)

theorem pushed_totalHours_witness:
  "app_made saved_state \<and>
   map netMinutes (sessions saved_state) = [Num 480] \<and>
   map body_totalHours (posted saved_state) = [Some 0] \<and>
   body_totalHours (last (posted (saveData Post_rejected saved_state))) = Some 0 \<and>
   map body_totalHours
     (posted (saveData (Post_response 500) (initial_state\<lparr>sessions := older_sessions\<rparr>))) =
     [Some 8]"
proof -
  let ?older = "initial_state\<lparr>sessions := older_sessions\<rparr>"
  have "app_made initial_state"
    by (rule app_made.start) (simp add: initial_state_def)
  then have a: "app_made saved_state"
    unfolding saved_state_def by (rule app_made.add)
  have b: "map body_totalHours (posted saved_state) = [Some 0]"
    by (simp add: saved_state_def saveSession_scenario_A closeDayPanel_def posted_saveData
        push_body_of_def initial_state_def totalHours_def netHours_or_zero_def round_double_def)
  have c: "body_totalHours (last (posted (saveData Post_rejected saved_state))) = Some 0"
    using pushed_totalHours[of Post_rejected saved_state] a by blast
  have o: "sessions ?older = older_sessions" "posted ?older = []"
    by (simp_all add: initial_state_def)
  have d: "map body_totalHours (posted (saveData (Post_response 500) ?older)) = [Some 8]"
    using pushed_totalHours[of "Post_response 500" ?older] totalHours_older[unfolded totalHours_def]
    by (simp add: o)
  show ?thesis
    using a b c d by (simp add: sessions_saved_state)
qed

section \<open>Uploading and saving files: facts\<close>

lemma saveFiles_frame:
  "uploadedFiles (saveFiles st) = uploadedFiles st"
  "files_store (saveFiles st) = files_store st"
  "db (saveFiles st) = db st"
  "currentFolder (saveFiles st) = currentFolder st"
  "alerts (saveFiles st) = alerts st"
  "folders (saveFiles st) = folders st"
  by (simp_all add: saveFiles_def)

lemma alert_frame:
  "uploadedFiles (alert m st) = uploadedFiles st"
  "files_store (alert m st) = files_store st"
  "db (alert m st) = db st"
  "currentFolder (alert m st) = currentFolder st"
  "alerts (alert m st) = alerts st @ [m]"
  by (simp_all add: alert_def)

lemma reject_oversize_Cons:
  "reject_oversize n (u # us) (a, b, st) =
     (if too_large u
      then reject_oversize n us
             (a + 1, b,
              if a + 1 = n \<and> b > 0 then saveFiles (alert (too_large_message u) st)
              else alert (too_large_message u) st)
      else reject_oversize n us (a, b, st))"
  by (simp add: too_large_def too_large_message_def Let_def)

lemma reject_oversize_frame:
  "reject_oversize n us (a, b, st) = (a', b', st') \<Longrightarrow>
     b' = b \<and> uploadedFiles st' = uploadedFiles st \<and> files_store st' = files_store st \<and>
     db st' = db st \<and> currentFolder st' = currentFolder st \<and>
     alerts st' = alerts st @ map too_large_message (filter too_large us)"
proof (induction us arbitrary: a b st)
  case Nil
  then show ?case by simp
next
  case (Cons u us)
  show ?case
  proof (cases "too_large u")
    case True
    let ?st1 = "alert (too_large_message u) st"
    let ?st2 = "if a + 1 = n \<and> b > 0 then saveFiles ?st1 else ?st1"
    from Cons.prems True have "reject_oversize n us (a + 1, b, ?st2) = (a', b', st')"
      by (simp add: reject_oversize_Cons del: reject_oversize.simps)
    from Cons.IH[OF this] True show ?thesis
      by (simp add: saveFiles_frame alert_frame)
  next
    case False
    from Cons.prems False have "reject_oversize n us (a, b, st) = (a', b', st')"
      by (simp add: reject_oversize_Cons del: reject_oversize.simps)
    from Cons.IH[OF this] False show ?thesis by simp
  qed
qed

lemma upload_failed_frame:
  "upload_failed n m (a, b, st) = (a', b', st') \<Longrightarrow>
     uploadedFiles st' = uploadedFiles st \<and> files_store st' = files_store st \<and>
     db st' = db st \<and> currentFolder st' = currentFolder st \<and>
     alerts st' = alerts st @ [m]"
  by (auto simp: upload_failed_def Let_def saveFiles_frame alert_frame split: if_splits)

lemma reader_event_frame:
  assumes "reader_event fmt n u (a, b, st) = (a', b', st')"
  shows "db st' = db st \<and> currentFolder st' = currentFolder st \<and>
     (\<exists>ms. alerts st' = alerts st @ ms) \<and>
     (if blob_written st u
      then uploadedFiles st' = uploadedFiles st @ [fileObj fmt (currentFolder st) u] \<and>
           files_store st' = (files_store st)(u_id u \<mapsto> Blob (u_bytes u) (u_type u))
      else uploadedFiles st' = uploadedFiles st \<and> files_store st' = files_store st)"
proof (cases "blob_written st u")
  case True
  with assms show ?thesis
    by (auto simp: reader_event_def blob_written_def Let_def saveFiles_frame alert_frame
        split: if_splits)
next
  case False
  then consider "\<not> u_read_ok u" | "u_read_ok u" "\<not> db st"
    | msg where "u_read_ok u" "db st" "u_put_error u = Some msg"
    by (auto simp: blob_written_def)
  then show ?thesis
  proof cases
    case 1
    with assms have "upload_failed n (''Failed to read file: '' @ u_name u) (a, b, st) = (a', b', st')"
      by (simp add: reader_event_def)
    from upload_failed_frame[OF this] False show ?thesis by simp
  next
    case 2
    with assms have "\<exists>m. upload_failed n m (a, b, st) = (a', b', st')"
      by (auto simp: reader_event_def)
    then obtain m where "upload_failed n m (a, b, st) = (a', b', st')" ..
    from upload_failed_frame[OF this] False show ?thesis by simp
  next
    case 3
    with assms have "\<exists>m. upload_failed n m (a, b, st) = (a', b', st')"
      by (auto simp: reader_event_def)
    then obtain m where "upload_failed n m (a, b, st) = (a', b', st')" ..
    from upload_failed_frame[OF this] False show ?thesis by simp
  qed
qed

lemma reader_events_frame:
  "reader_events fmt n us (a, b, st) = (a', b', st') \<Longrightarrow>
     db st' = db st \<and> currentFolder st' = currentFolder st \<and>
     (\<exists>ms. alerts st' = alerts st @ ms) \<and>
     uploadedFiles st' =
       uploadedFiles st @ map (fileObj fmt (currentFolder st)) (filter (blob_written st) us) \<and>
     (\<forall>k. files_store st k \<noteq> None \<longrightarrow> files_store st' k \<noteq> None) \<and>
     (\<forall>u\<in>set us. blob_written st u \<longrightarrow> files_store st' (u_id u) \<noteq> None)"
proof (induction us arbitrary: a b st)
  case Nil
  then show ?case by simp
next
  case (Cons u us)
  obtain a1 b1 st1 where ev: "reader_event fmt n u (a, b, st) = (a1, b1, st1)"
    by (cases "reader_event fmt n u (a, b, st)") auto
  with Cons.prems have rest: "reader_events fmt n us (a1, b1, st1) = (a', b', st')"
    by simp
  note E = reader_event_frame[OF ev]
  note R = Cons.IH[OF rest]
  have bw: "blob_written st1 = blob_written st"
    using E by (auto simp: blob_written_def fun_eq_iff)
  have cf: "currentFolder st1 = currentFolder st" using E by simp
  show ?case
  proof (intro conjI)
    show "db st' = db st" using E R by simp
    show "currentFolder st' = currentFolder st" using E R by simp
    show "\<exists>ms. alerts st' = alerts st @ ms" using E R by auto
    show "uploadedFiles st' =
       uploadedFiles st @ map (fileObj fmt (currentFolder st)) (filter (blob_written st) (u # us))"
      using E R by (simp add: bw cf split: if_splits)
    show "\<forall>k. files_store st k \<noteq> None \<longrightarrow> files_store st' k \<noteq> None"
      using E R by (auto split: if_splits)
    show "\<forall>u\<in>set (u # us). blob_written st u \<longrightarrow> files_store st' (u_id u) \<noteq> None"
      using E R by (auto simp: bw split: if_splits)
  qed
qed


lemma handleFiles_split:
  obtains a1 b1 st1 a2 b2 where
    "reject_oversize (length files) files (0, 0, st) = (a1, b1, st1)"
    "reader_events fmt (length files) (filter (\<lambda>u. \<not> too_large u) files) (a1, b1, st1) =
       (a2, b2, handleFiles fmt files st)"
proof -
  obtain a1 b1 st1 where 1: "reject_oversize (length files) files (0, 0, st) = (a1, b1, st1)"
    by (cases "reject_oversize (length files) files (0, 0, st)") auto
  obtain a2 b2 st2 where 2:
    "reader_events fmt (length files) (filter (\<lambda>u. \<not> too_large u) files) (a1, b1, st1) = (a2, b2, st2)"
    by (cases "reader_events fmt (length files) (filter (\<lambda>u. \<not> too_large u) files) (a1, b1, st1)") auto
  have "handleFiles fmt files st = st2"
    using 1 2 by (simp add: handleFiles_def Let_def too_large_def[abs_def])
  with 1 2 that show ?thesis by simp
qed

text \<open>
  C7. In a batch, the records appended to the metadata list are exactly those of the files
  that are not over 200 MiB and whose blob was written, in the order of the batch; one
  file's rejection or failure leaves the others as they are. Every file over 200 MiB gets
  its message. Every appended record has its blob in the store at the end and carries no
  \<open>data\<close> field. And in the event of a single reader, the list grows only in the branch
  where the write succeeded, after the blob is in the store.
\<close>

theorem handleFiles_batch:
  "uploadedFiles (handleFiles fmt files st) =
     uploadedFiles st @
       map (fileObj fmt (currentFolder st))
         (filter (\<lambda>u. \<not> too_large u \<and> blob_written st u) files) \<and>
   (\<forall>u\<in>set files. too_large u \<longrightarrow>
      too_large_message u \<in> set (alerts (handleFiles fmt files st))) \<and>
   (\<forall>u\<in>set files. \<not> too_large u \<and> blob_written st u \<longrightarrow>
      files_store (handleFiles fmt files st) (u_id u) \<noteq> None \<and>
      file_data (fileObj fmt (currentFolder st) u) = None) \<and>
   (\<forall>a b s a' b' s'. reader_event fmt n v (a, b, s) = (a', b', s') \<longrightarrow>
      uploadedFiles s' \<noteq> uploadedFiles s \<longrightarrow>
      u_put_error v = None \<and> files_store s' (u_id v) = Some (Blob (u_bytes v) (u_type v)) \<and>
      uploadedFiles s' = uploadedFiles s @ [fileObj fmt (currentFolder s) v])"
proof -
  obtain a1 b1 st1 a2 b2 where
    1: "reject_oversize (length files) files (0, 0, st) = (a1, b1, st1)" and
    2: "reader_events fmt (length files) (filter (\<lambda>u. \<not> too_large u) files) (a1, b1, st1) =
       (a2, b2, handleFiles fmt files st)"
    by (rule handleFiles_split)
  note R = reject_oversize_frame[OF 1]
  note E = reader_events_frame[OF 2]
  have bw: "blob_written st1 = blob_written st"
    using R by (auto simp: blob_written_def fun_eq_iff)
  have A: "uploadedFiles (handleFiles fmt files st) =
     uploadedFiles st @
       map (fileObj fmt (currentFolder st))
         (filter (\<lambda>u. \<not> too_large u \<and> blob_written st u) files)"
    using R E by (simp add: bw conj_commute)
  have B: "\<forall>u\<in>set files. too_large u \<longrightarrow>
      too_large_message u \<in> set (alerts (handleFiles fmt files st))"
  proof -
    from E obtain ms where "alerts (handleFiles fmt files st) = alerts st1 @ ms" by blast
    with R show ?thesis by auto
  qed
  have C: "\<forall>u\<in>set files. \<not> too_large u \<and> blob_written st u \<longrightarrow>
      files_store (handleFiles fmt files st) (u_id u) \<noteq> None \<and>
      file_data (fileObj fmt (currentFolder st) u) = None"
    using E by (auto simp: bw fileObj_def)
  have D: "\<forall>a b s a' b' s'. reader_event fmt n v (a, b, s) = (a', b', s') \<longrightarrow>
      uploadedFiles s' \<noteq> uploadedFiles s \<longrightarrow>
      u_put_error v = None \<and> files_store s' (u_id v) = Some (Blob (u_bytes v) (u_type v)) \<and>
      uploadedFiles s' = uploadedFiles s @ [fileObj fmt (currentFolder s) v]"
  proof (intro allI impI)
    fix a b s a' b' s'
    assume ev: "reader_event fmt n v (a, b, s) = (a', b', s')"
      and ne: "uploadedFiles s' \<noteq> uploadedFiles s"
    from reader_event_frame[OF ev] ne have "blob_written s v"
      by (auto split: if_splits)
    with reader_event_frame[OF ev]
    show "u_put_error v = None \<and> files_store s' (u_id v) = Some (Blob (u_bytes v) (u_type v)) \<and>
      uploadedFiles s' = uploadedFiles s @ [fileObj fmt (currentFolder s) v]"
      by (simp add: blob_written_def)
  qed
  from A B C D show ?thesis by blast
qed

theorem handleFiles_batch_witness:
  "too_large (mk_upload ''big.zip'' 209715201) \<and>
   mk_upload ''big.zip'' 209715201 \<in> set batch \<and>
   too_large_message (mk_upload ''big.zip'' 209715201) \<in>
     set (alerts (handleFiles show_nat batch (initial_state\<lparr>db := True\<rparr>))) \<and>
   \<not> too_large (mk_upload ''c.txt'' 209715200) \<and>
   blob_written (initial_state\<lparr>db := True\<rparr>) (mk_upload ''c.txt'' 209715200) \<and>
   mk_upload ''c.txt'' 209715200 \<in> set batch \<and>
   files_store (handleFiles show_nat batch (initial_state\<lparr>db := True\<rparr>)) ''id_c.txt'' \<noteq> None \<and>
   map file_id (uploadedFiles (handleFiles show_nat batch (initial_state\<lparr>db := True\<rparr>))) =
     [''id_a.pdf'', ''id_c.txt''] \<and>
   uploadedFiles (snd (snd (reader_event show_nat 3 (mk_upload ''a.pdf'' 5)
     (0, 0, initial_state\<lparr>db := True\<rparr>)))) \<noteq> uploadedFiles (initial_state\<lparr>db := True\<rparr>) \<and>
   files_store (snd (snd (reader_event show_nat 3 (mk_upload ''a.pdf'' 5)
     (0, 0, initial_state\<lparr>db := True\<rparr>)))) ''id_a.pdf'' = Some (Blob ''hello'' [])"
proof -
  obtain a b s where ev:
    "reader_event show_nat 3 (mk_upload ''a.pdf'' 5) (0, 0, initial_state\<lparr>db := True\<rparr>) = (a, b, s)"
    by (cases "reader_event show_nat 3 (mk_upload ''a.pdf'' 5) (0, 0, initial_state\<lparr>db := True\<rparr>)")
      auto
  have grow: "uploadedFiles s \<noteq> uploadedFiles (initial_state\<lparr>db := True\<rparr>)"
    using ev by (auto simp: reader_event_def mk_upload_def initial_state_def Let_def)
  show ?thesis
    using handleFiles_batch[of show_nat batch "initial_state\<lparr>db := True\<rparr>" 3
        "mk_upload ''a.pdf'' 5"] ev grow
    by (simp add: batch_def mk_upload_def too_large_def MAX_BYTES_def blob_written_def
        initial_state_def fileObj_def)
qed

lemma metadata_only_eq: "metadata_only f = f\<lparr>file_data := None\<rparr>"
  by (simp add: metadata_only_def)

lemma persisted_saveFiles:
  "persisted_files (saveFiles st) = JSON_files (map metadata_only (uploadedFiles st))"
  by (simp add: persisted_files_def saveFiles_def)

lemma loadFiles_saveFiles:
  "uploadedFiles (loadFiles (saveFiles st)) = JSON_files (map metadata_only (uploadedFiles st))"
  by (simp add: loadFiles_def saveFiles_def Let_def)

lemma persisted_createFolder:
  "trim input \<noteq> [] \<Longrightarrow>
   persisted_files (createFolder input stamp now st) =
     JSON_files (map metadata_only (uploadedFiles st))"
  by (simp add: createFolder_def Let_def persisted_saveFiles)

text \<open>
  What \<open>saveFiles\<close> leaves under the files key is, for each file in memory, its record
  without the \<open>data\<close> field and with the \<open>type\<close> as JSON writes it: no persisted record
  has a key outside \<open>id\<close>, \<open>name\<close>, \<open>size\<close>, \<open>uploadedAt\<close>, \<open>type\<close>, \<open>parentId\<close>, and
  none carries an inline payload. \<open>saveFiles\<close> writes nothing to the blob store, so a
  legacy payload that is not there yet is, after the first \<open>saveFiles\<close>, neither in the
  persisted metadata nor in the blob store, and is gone from memory too once the metadata
  is loaded again. Creating a folder persists the same records.
\<close>

lemma saveFiles_no_inline_data:
  "persisted_files (saveFiles st) =
     map (\<lambda>f. f\<lparr>file_type := json_type (file_type f), file_data := None\<rparr>) (uploadedFiles st) \<and>
   (\<forall>f\<in>set (persisted_files (saveFiles st)).
      file_data f = None \<and>
      set (persisted_keys f) \<subseteq>
        {''id'', ''name'', ''size'', ''uploadedAt'', ''type'', ''parentId''}) \<and>
   files_store (saveFiles st) = files_store st \<and>
   uploadedFiles (loadFiles (saveFiles st)) = persisted_files (saveFiles st) \<and>
   (trim input \<noteq> [] \<longrightarrow>
      persisted_files (createFolder input stamp now st) = persisted_files (saveFiles st))"
  by (auto simp: persisted_saveFiles loadFiles_saveFiles persisted_createFolder
      metadata_only_eq JSON_files_def json_file_def persisted_keys_def saveFiles_frame)

lemma legacy_payload_dropped:
  "map file_data (persisted_files legacy_state) = [Some ''aGVsbG8=''] \<and>
   files_store legacy_state ''old'' = None \<and>
   map file_data (persisted_files (saveFiles legacy_state)) = [None] \<and>
   files_store (saveFiles legacy_state) ''old'' = None \<and>
   map file_data (uploadedFiles (loadFiles (saveFiles legacy_state))) = [None]"
  using saveFiles_no_inline_data[of legacy_state]
  by (simp add: legacy_state_def initial_state_def persisted_files_def mk_file_def)

lemma getMimeType_constructor: "getMimeType ''x.constructor'' = Type_Object_function"
  by code_simp

text \<open>
  C9 at a concrete upload. A file named \<open>x.constructor\<close> comes without a MIME type, so
  its \<open>type\<close> is looked up by \<open>getMimeType\<close>, which returns the function \<open>Object\<close> that
  the table inherits under the name \<open>constructor\<close>. The record is appended with that
  function as its \<open>type\<close>, and the record that \<open>saveFiles\<close> persists for it has five
  keys: JSON leaves the \<open>type\<close> out.
\<close>

theorem constructor_type_not_persisted:
  "map file_type
     (uploadedFiles (handleFiles show_nat constructor_batch (initial_state\<lparr>db := True\<rparr>))) =
     [Type_Object_function] \<and>
   map persisted_keys
     (persisted_files (handleFiles show_nat constructor_batch (initial_state\<lparr>db := True\<rparr>))) =
     [[''id'', ''name'', ''size'', ''uploadedAt'', ''parentId'']]"
  by (simp add: handleFiles_def constructor_batch_def mk_upload_def MAX_BYTES_def
      reader_event_def initial_state_def Let_def fileObj_def type_or_def
      getMimeType_constructor saveFiles_def alert_def persisted_files_def JSON_files_def
      json_file_def metadata_only_def persisted_keys_def)

section \<open>Deleting a folder: facts\<close>

text \<open>
  What \<open>filter\<close> keeps does not depend on what the nested calls do: the folder list after
  \<open>deleteContents\<close> is the list before it without the direct children of \<open>parentId\<close>.
\<close>

lemma filter_callback_kept:
  "filter_callback depth parentId fs st = Some (kept, st') \<Longrightarrow>
   kept = filter (\<lambda>f. folder_parentId f \<noteq> Some parentId) fs"
proof (induction fs arbitrary: st kept)
  case Nil
  then show ?case by simp
next
  case (Cons f fs)
  then show ?case
    by (auto split: if_splits option.splits)
qed

lemma folders_delete_files_of: "folders (delete_files_of parentId st) = folders st"
proof -
  have "folders (fold (\<lambda>f. deleteFileFromIndexedDB (file_id f)) fs st) = folders st" for fs
    by (induction fs arbitrary: st) (simp_all add: deleteFileFromIndexedDB_def)
  then show ?thesis
    by (simp add: delete_files_of_def Let_def)
qed

lemma deleteContents_folders:
  "deleteContents depth parentId st = Some st' \<Longrightarrow>
   folders st' = filter (\<lambda>f. folder_parentId f \<noteq> Some parentId) (folders st)"
proof (cases depth)
  case 0
  assume "deleteContents depth parentId st = Some st'"
  with 0 show ?thesis by simp
next
  case (Suc n)
  assume "deleteContents depth parentId st = Some st'"
  with Suc obtain kept st1 where
    fc: "filter_callback n parentId (folders st) st = Some (kept, st1)" and
    st': "st' = delete_files_of parentId (st1\<lparr>folders := kept\<rparr>)"
    by (auto split: option.splits)
  from filter_callback_kept[OF fc] st' show ?thesis
    by (simp add: folders_delete_files_of)
qed

lemma deleteFolder_folders:
  "deleteFolder True depth folderId st = Some st' \<Longrightarrow>
   folders st' = filter (\<lambda>f. folder_parentId f \<noteq> Some folderId) (folders st)"
  by (auto simp: deleteFolder_def saveFiles_def dest: deleteContents_folders split: option.splits)

text \<open>
  On a folder list without cycles the recursion ends: a depth above the rank of the
  folder is enough for \<open>deleteFolder\<close> to return, and the folder list it leaves is the
  one before without the direct children of the folder.
\<close>

lemma ranked_subset:
  "ranked rank st \<Longrightarrow> set (folders st') \<subseteq> set (folders st) \<Longrightarrow> ranked rank st'"
  by (auto simp: ranked_def)

lemma deleteContents_returns:
  "\<forall>p st. ranked rank st \<longrightarrow> rank p < n \<longrightarrow>
      (\<exists>st'. deleteContents n p st = Some st' \<and> set (folders st') \<subseteq> set (folders st))"
proof (induction n)
  case 0
  show ?case by simp
next
  case (Suc n)
  have inner: "ranked rank st \<Longrightarrow>
      \<forall>f\<in>set fs. folder_parentId f = Some p \<longrightarrow> rank (folder_id f) < n \<Longrightarrow>
      \<exists>kept st'. filter_callback n p fs st = Some (kept, st') \<and>
        set (folders st') \<subseteq> set (folders st) \<and> set kept \<subseteq> set fs" for fs p st
  proof (induction fs arbitrary: st)
    case Nil
    then show ?case by simp
  next
    case (Cons f fs)
    show ?case
    proof (cases "folder_parentId f = Some p")
      case True
      with Cons.prems have "rank (folder_id f) < n" by simp
      with Suc.IH Cons.prems(1) obtain st1 where
        1: "deleteContents n (folder_id f) st = Some st1" and
        2: "set (folders st1) \<subseteq> set (folders st)"
        by blast
      from ranked_subset[OF Cons.prems(1) 2] have "ranked rank st1" .
      from Cons.IH[OF this] Cons.prems(2) obtain kept st' where
        "filter_callback n p fs st1 = Some (kept, st')"
        "set (folders st') \<subseteq> set (folders st1)" "set kept \<subseteq> set fs"
        by auto
      with True 1 2 show ?thesis by auto
    next
      case False
      from Cons.IH[OF Cons.prems(1)] Cons.prems(2) obtain kept st' where
        "filter_callback n p fs st = Some (kept, st')"
        "set (folders st') \<subseteq> set (folders st)" "set kept \<subseteq> set fs"
        by auto
      with False show ?thesis by auto
    qed
  qed
  show ?case
  proof (intro allI impI)
    fix p st
    assume r: "ranked rank st" and lt: "rank p < Suc n"
    have "\<forall>f\<in>set (folders st). folder_parentId f = Some p \<longrightarrow> rank (folder_id f) < n"
      using r lt by (auto simp: ranked_def)
    from inner[OF r this] obtain kept st1 where
      fc: "filter_callback n p (folders st) st = Some (kept, st1)" and
      k: "set kept \<subseteq> set (folders st)"
      by blast
    have "folders (delete_files_of p (st1\<lparr>folders := kept\<rparr>)) = kept"
      by (simp add: folders_delete_files_of)
    with fc k show "\<exists>st'. deleteContents (Suc n) p st = Some st' \<and>
        set (folders st') \<subseteq> set (folders st)"
      by simp
  qed
qed

lemma deleteFolder_on_ranked:
  assumes "ranked rank st" and "rank folderId < depth"
  shows "\<exists>st'. deleteFolder True depth folderId st = Some st' \<and>
    folders st' = filter (\<lambda>f. folder_parentId f \<noteq> Some folderId) (folders st)"
proof -
  from deleteContents_returns[of rank depth] assms obtain st1 where
    "deleteContents depth folderId st = Some st1"
    by blast
  then have "deleteFolder True depth folderId st = Some (saveFiles st1)"
    by (simp add: deleteFolder_def)
  with deleteFolder_folders[OF this] show ?thesis by simp
qed

text \<open>
  C1 at two concrete folder lists. Deleting the only folder \<open>F\<close> leaves \<open>F\<close> in the folder
  list. Deleting \<open>A\<close>, which holds a file and the folder \<open>B\<close>, which holds the folder \<open>C\<close>
  with a file, removes \<open>B\<close> and the two files and leaves \<open>A\<close> itself and \<open>C\<close> in the
  folder list; the folder \<open>D\<close> beside \<open>A\<close> and its file are untouched.
\<close>

theorem deleteFolder_keeps_folder:
  "map_option (\<lambda>st. map folder_id (folders st)) (deleteFolder True 1 ''F'' one_folder_state) =
     Some [''F''] \<and>
   map_option (\<lambda>st. (map folder_id (folders st), map file_id (uploadedFiles st)))
     (deleteFolder True 3 ''A'' nested_state) = Some ([''A'', ''C'', ''D''], [''z''])"
  by (simp add: deleteFolder_def one_folder_state_def nested_state_def initial_state_def
      mk_folder_def mk_file_def saveFiles_def delete_files_of_def deleteFileFromIndexedDB_def
      numeral_3_eq_3)


end
